theory Spec2Isabelle
  imports Complex_Main
begin

section \<open>The belief network of the notebook\<close>

text \<open>
  The notebook declares the same six-node network four times inside
  \<^verbatim>\<open>with Model() as bayesnet:\<close>; the blocks differ only in the
  \<^verbatim>\<open>observed=\<close> keyword given to \<^verbatim>\<open>x2\<close> and \<^verbatim>\<open>x3\<close>.
  Python floats are modelled as reals; Bernoulli outcomes are the numbers 0 and 1,
  as the notebook compares them with \<^verbatim>\<open>> 0.5\<close>.
\<close>

text \<open>\<^verbatim>\<open>pymc3.math.switch(cond, a, b)\<close>: \<open>a\<close> where the condition holds, else \<open>b\<close>.\<close>

definition switch :: "bool \<Rightarrow> real \<Rightarrow> real \<Rightarrow> real" where
  "switch c a b = (if c then a else b)"

text \<open>\<^verbatim>\<open>g1_L = switch(g1_healthy > 0.5, 0.9, 0.1)\<close>\<close>

definition g1_L :: "real \<Rightarrow> real" where
  "g1_L g1_healthy = switch (g1_healthy > 0.5) 0.9 0.1"

text \<open>\<^verbatim>\<open>rate1 = switch(g1_healthy > .5, 50, 60)\<close>, and the same for the two children.\<close>

definition rate1 :: "real \<Rightarrow> real" where
  "rate1 g1_healthy = switch (g1_healthy > 0.5) 50 60"

definition rate2 :: "real \<Rightarrow> real" where
  "rate2 g2_healthy = switch (g2_healthy > 0.5) 50 60"

definition rate3 :: "real \<Rightarrow> real" where
  "rate3 g3_healthy = switch (g3_healthy > 0.5) 50 60"

text \<open>\<^verbatim>\<open>sd=10**.5\<close>\<close>

definition sd :: real where
  "sd = 10 powr 0.5"

datatype dist = Bernoulli real | Normal real real

text \<open>
  What \<^verbatim>\<open>observed=\<close> receives in the notebook: the number \<^verbatim>\<open>50\<close>, or a list
  of numbers (\<^verbatim>\<open>data_1\<close>, \<^verbatim>\<open>data_2\<close>).
\<close>

datatype obs = Scalar real | Seq "real list"

text \<open>
  A declared random variable: its name, its distribution as a function of the
  current values of the other variables (the switches read their parent), and the
  value it is fixed to, if any.
\<close>

record rv =
  rv_name :: string
  rv_dist :: "(string \<Rightarrow> real) \<Rightarrow> dist"
  rv_observed :: "obs option"

type_synonym model = "rv list"

text \<open>
  The body of a \<^verbatim>\<open>with Model() as bayesnet:\<close> block, in declaration order. The
  two arguments are the \<^verbatim>\<open>observed=\<close> keywords of \<^verbatim>\<open>x2\<close> and \<^verbatim>\<open>x3\<close>
  (\<open>None\<close> where the block gives none).
\<close>

definition bayesnet :: "obs option \<Rightarrow> obs option \<Rightarrow> model" where
  "bayesnet x2_observed x3_observed =
    [\<lparr>rv_name = ''g1'', rv_dist = (\<lambda>pt. Bernoulli 0.5), rv_observed = None\<rparr>,
     \<lparr>rv_name = ''g2'', rv_dist = (\<lambda>pt. Bernoulli (g1_L (pt ''g1''))), rv_observed = None\<rparr>,
     \<lparr>rv_name = ''g3'', rv_dist = (\<lambda>pt. Bernoulli (g1_L (pt ''g1''))), rv_observed = None\<rparr>,
     \<lparr>rv_name = ''x1'', rv_dist = (\<lambda>pt. Normal (rate1 (pt ''g1'')) sd), rv_observed = None\<rparr>,
     \<lparr>rv_name = ''x2'', rv_dist = (\<lambda>pt. Normal (rate2 (pt ''g2'')) sd),
      rv_observed = x2_observed\<rparr>,
     \<lparr>rv_name = ''x3'', rv_dist = (\<lambda>pt. Normal (rate3 (pt ''g3'')) sd),
      rv_observed = x3_observed\<rparr>]"

text \<open>\<^verbatim>\<open>data_1\<close> and \<^verbatim>\<open>data_2\<close> of the last model.\<close>

definition data_1 :: "real list" where
  "data_1 = [38, 58, 62, 55, 80, 40, 51, 52]"

definition data_2 :: "real list" where
  "data_2 = [32, 110, 72, 43, 66, 55, 59, 52]"

text \<open>The four blocks of the notebook.\<close>

definition bayesnet_base :: model where
  "bayesnet_base = bayesnet None None"

definition bayesnet_ex1 :: model where
  "bayesnet_ex1 = bayesnet (Some (Scalar 50)) None"

definition bayesnet_ex2 :: model where
  "bayesnet_ex2 = bayesnet None (Some (Scalar 50))"

definition bayesnet_data :: model where
  "bayesnet_data = bayesnet (Some (Seq data_2)) (Some (Seq data_1))"

section \<open>Summaries of a trace\<close>

text \<open>
  A quotient of two numbers as the notebook computes it. With a zero divisor no
  number comes out (numpy's scalars give \<^verbatim>\<open>nan\<close> with a RuntimeWarning, Python's
  own integers raise \<^verbatim>\<open>ZeroDivisionError\<close>): the model returns \<open>None\<close>.
\<close>

definition true_divide :: "real \<Rightarrow> real \<Rightarrow> real option" where
  "true_divide a b = (if b = 0 then None else Some (a / b))"

text \<open>
  \<^verbatim>\<open>p_g1_healthy = sum(mytrace['g1'])/len(mytrace['g1'])\<close>, on the integer samples
  of \<^verbatim>\<open>g1\<close>.
\<close>

definition p_g1_healthy :: "int list \<Rightarrow> real option" where
  "p_g1_healthy g1 = true_divide (of_int (sum_list g1)) (of_nat (length g1))"

text \<open>\<^verbatim>\<open>p_g1_not_healthy = 1 - p_g1_healthy\<close>\<close>

definition p_g1_not_healthy :: "int list \<Rightarrow> real option" where
  "p_g1_not_healthy g1 = map_option (\<lambda>p. 1 - p) (p_g1_healthy g1)"

text \<open>numpy's \<^verbatim>\<open>sum\<close> of a boolean array: the number of \<^verbatim>\<open>True\<close> entries.\<close>

definition sum_bools :: "bool list \<Rightarrow> int" where
  "sum_bools bs = sum_list (map of_bool bs)"

text \<open>
  \<^verbatim>\<open>n1 = mytrace['x2']>51; n2 = mytrace['x2']<50\<close>, then
  \<^verbatim>\<open>(len(mytrace['x2']) - sum(n1) - sum(n2))/len(mytrace['x2'])\<close>.
\<close>

definition interval_estimate :: "real list \<Rightarrow> real option" where
  "interval_estimate x2 =
     (let n1 = map (\<lambda>x. x > 51) x2;
          n2 = map (\<lambda>x. x < 50) x2
      in true_divide (of_int (int (length x2) - sum_bools n1 - sum_bools n2))
           (of_nat (length x2)))"

section \<open>The variables of a trace\<close>

text \<open>
  Modelled from the spec: the variables that the trace returned by \<^verbatim>\<open>pm.sample\<close>
  holds; the sampler is library code that is not part of the sources. The spec has
  one sequence per non-observed variable, and no observed variable, in the trace.
\<close>

definition trace_varnames :: "model \<Rightarrow> string list" where
  "trace_varnames g = map rv_name (filter (\<lambda>v. rv_observed v = None) g)"

section \<open>Auxiliary facts\<close>

lemma sd_sqrt: "sd = sqrt 10"
  by (simp add: sd_def powr_half_sqrt)

lemma sum_bools_count: "sum_bools (map P xs) = int (length (filter P xs))"
  by (induction xs) (simp_all add: sum_bools_def)

lemma interval_count:
  "int (length xs) - sum_bools (map (\<lambda>x. x > 51) xs) - sum_bools (map (\<lambda>x. x < 50) xs)
     = int (length (filter (\<lambda>x. 50 \<le> x \<and> x \<le> (51::real)) xs))"
  unfolding sum_bools_count by (induction xs) auto


lemma fraction_unit:
  "0 < n \<Longrightarrow> k \<le> n \<Longrightarrow> 0 \<le> real k / real n \<and> real k / real n \<le> 1"
  by simp

section \<open>The claims\<close>

text \<open>
  C4. The network is built from literal parameters: \<^verbatim>\<open>g1\<close> is Bernoulli with
  probability 0.5; \<^verbatim>\<open>g2\<close> and \<^verbatim>\<open>g3\<close> are Bernoulli with probability 0.9 when
  the root is healthy (its value is 1) and 0.1 otherwise; \<^verbatim>\<open>x1, x2, x3\<close> are Normal
  with mean 50 when their boolean node is healthy and 60 otherwise, and standard
  deviation \<open>\<surd>10\<close>. This holds whatever is observed.
\<close>

theorem bayesnet_parameters:
  assumes "pt ''g1'' \<in> {0, 1}" and "pt ''g2'' \<in> {0, 1}" and "pt ''g3'' \<in> {0, 1}"
  shows "map (\<lambda>v. (rv_name v, rv_dist v pt)) (bayesnet x2_observed x3_observed) =
    [(''g1'', Bernoulli 0.5),
     (''g2'', Bernoulli (if pt ''g1'' = 1 then 0.9 else 0.1)),
     (''g3'', Bernoulli (if pt ''g1'' = 1 then 0.9 else 0.1)),
     (''x1'', Normal (if pt ''g1'' = 1 then 50 else 60) (sqrt 10)),
     (''x2'', Normal (if pt ''g2'' = 1 then 50 else 60) (sqrt 10)),
     (''x3'', Normal (if pt ''g3'' = 1 then 50 else 60) (sqrt 10))]"
  using assms
  by (auto simp add: bayesnet_def g1_L_def rate1_def rate2_def rate3_def switch_def sd_sqrt)

theorem bayesnet_parameters_witness:
  "map (\<lambda>v. (rv_name v, rv_dist v (\<lambda>n. if n = ''g1'' then 1 else 0))) bayesnet_ex1 =
    [(''g1'', Bernoulli 0.5),
     (''g2'', Bernoulli 0.9),
     (''g3'', Bernoulli 0.9),
     (''x1'', Normal 50 (sqrt 10)),
     (''x2'', Normal 60 (sqrt 10)),
     (''x3'', Normal 60 (sqrt 10))]"
  using bayesnet_parameters [of "\<lambda>n. if n = ''g1'' then 1 else 0" "Some (Scalar 50)" None]
  by (simp add: bayesnet_ex1_def)

text \<open>
  C10, as stated, fails on the empty trace: the quotient has divisor 0 and no
  number in \<open>[0, 1]\<close> comes out.
\<close>

theorem interval_estimate_empty_counterexample:
  "\<not> (\<exists>p. interval_estimate [] = Some p \<and> 0 \<le> p \<and> p \<le> 1)"
  by (simp add: interval_estimate_def true_divide_def sum_bools_def)

text \<open>
  C10 (amended). For every non-empty trace of \<^verbatim>\<open>x2\<close>, the interval estimate (the
  sample count minus the samples above 51 minus the samples below 50, divided by
  the sample count) is the fraction of samples \<open>x\<close> with \<open>50 \<le> x \<le> 51\<close>, and lies
  in \<open>[0, 1]\<close>.
\<close>

theorem interval_estimate_fraction:
  assumes "x2 \<noteq> []"
  shows "\<exists>p. interval_estimate x2 = Some p
           \<and> p = real (length (filter (\<lambda>x. 50 \<le> x \<and> x \<le> 51) x2)) / real (length x2)
           \<and> 0 \<le> p \<and> p \<le> 1"
proof -
  have n: "0 < length x2" using assms by simp
  have k: "length (filter (\<lambda>x. 50 \<le> x \<and> x \<le> 51) x2) \<le> length x2" by simp
  have "interval_estimate x2 =
      Some (real (length (filter (\<lambda>x. 50 \<le> x \<and> x \<le> 51) x2)) / real (length x2))"
    unfolding interval_estimate_def Let_def interval_count
    using n by (simp add: true_divide_def)
  with fraction_unit [OF n k] show ?thesis by simp
qed

theorem interval_estimate_fraction_witness:
  "interval_estimate [49, 50, 50.5, 52] = Some (1 / 2)"
  using interval_estimate_fraction [of "[49, 50, 50.5, 52]"] by auto




text \<open>
  C3. In a graph whose variables have distinct names, a variable is in the trace
  exactly when it is not fixed by evidence: an observed variable never appears, a
  non-observed one always does. In the notebook, \<^verbatim>\<open>x2\<close> is absent from the trace
  of the model that observes \<^verbatim>\<open>x2\<close>, and present in the trace of the model that
  observes \<^verbatim>\<open>x3\<close> instead.
\<close>

theorem trace_holds_free_variables:
  assumes "distinct (map rv_name g)" and "v \<in> set g"
  shows "rv_name v \<in> set (trace_varnames g) \<longleftrightarrow> rv_observed v = None"
proof
  assume "rv_name v \<in> set (trace_varnames g)"
  then obtain w where w: "w \<in> set g" "rv_observed w = None" "rv_name w = rv_name v"
    by (auto simp add: trace_varnames_def)
  from assms w(1) w(3) have "w = v"
    by (simp add: distinct_map inj_on_def)
  with w(2) show "rv_observed v = None" by simp
next
  assume "rv_observed v = None"
  with assms(2) show "rv_name v \<in> set (trace_varnames g)"
    by (auto simp add: trace_varnames_def)
qed

theorem trace_holds_free_variables_witness:
  "''x2'' \<notin> set (trace_varnames bayesnet_ex1) \<and> ''x2'' \<in> set (trace_varnames bayesnet_ex2)
     \<and> ''x3'' \<notin> set (trace_varnames bayesnet_ex2)"
proof -
  let ?x2 = "\<lambda>ob. \<lparr>rv_name = ''x2'', rv_dist = (\<lambda>pt. Normal (rate2 (pt ''g2'')) sd),
    rv_observed = ob\<rparr>"
  let ?x3 = "\<lambda>ob. \<lparr>rv_name = ''x3'', rv_dist = (\<lambda>pt. Normal (rate3 (pt ''g3'')) sd),
    rv_observed = ob\<rparr>"
  have d1: "distinct (map rv_name bayesnet_ex1)"
    and d2: "distinct (map rv_name bayesnet_ex2)"
    by (simp_all add: bayesnet_ex1_def bayesnet_ex2_def bayesnet_def)
  have m1: "?x2 (Some (Scalar 50)) \<in> set bayesnet_ex1"
    by (simp add: bayesnet_ex1_def bayesnet_def)
  have m2: "?x2 None \<in> set bayesnet_ex2"
    by (simp add: bayesnet_ex2_def bayesnet_def)
  have m3: "?x3 (Some (Scalar 50)) \<in> set bayesnet_ex2"
    by (simp add: bayesnet_ex2_def bayesnet_def)
  show ?thesis
    using trace_holds_free_variables [OF d1 m1] trace_holds_free_variables [OF d2 m2]
      trace_holds_free_variables [OF d2 m3]
    by simp
qed

end
